theory Spec2Isabelle
  imports Complex_Main
begin

section \<open>Person monitoring and alert dispatch (notification\_system.py)\<close>

text \<open>
  A shallow embedding of \<^verbatim>\<open>NotificationManager\<close>: the monitor registry, the four
  source checkers, the alert pipeline, the channel dispatchers and the monitoring loop.
  Everything the Python reads from outside the process (the wall clock, the random
  generator, HTTP and SMTP outcomes, what other tasks do while this one is suspended in
  an \<^verbatim>\<open>await\<close>, and faults raised inside the loop body) is an oracle of a
  \<open>world\<close> record, indexed by a counter of interactions kept in the manager state.
  Everything the Python does to the outside (print, sleep, HTTP and SMTP traffic) is an
  event appended to a trace in the manager state.
\<close>

subsection \<open>Strings, decimal rendering\<close>

definition digit_char :: "int \<Rightarrow> char" where
  "digit_char d = ''0123456789'' ! nat (d mod 10)"

function dec_digits :: "int \<Rightarrow> string" where
  \<comment> \<open>the decimal digits of a number that is not negative\<close>
  "dec_digits n =
     (if n < 10 then [digit_char n] else dec_digits (n div 10) @ [digit_char (n mod 10)])"
  by pat_completeness auto
termination
  by (relation "measure nat") auto

declare dec_digits.simps [simp del]

definition dec_int :: "int \<Rightarrow> string" where
  \<comment> \<open>\<^verbatim>\<open>str(i)\<close> of a Python int\<close>
  "dec_int i = (if i < 0 then CHR ''-'' # dec_digits (- i) else dec_digits i)"

definition zfill :: "nat \<Rightarrow> string \<Rightarrow> string" where
  \<comment> \<open>the \<^verbatim>\<open>%02d\<close>, \<^verbatim>\<open>%04d\<close>, \<^verbatim>\<open>%06d\<close> paddings of strftime and isoformat\<close>
  "zfill k s = replicate (k - length s) CHR ''0'' @ s"

definition replace_space :: "string \<Rightarrow> string" where
  \<comment> \<open>\<^verbatim>\<open>s.replace(' ', '_')\<close>\<close>
  "replace_space s = map (\<lambda>c. if c = CHR '' '' then CHR ''_'' else c) s"

definition lower_char :: "char \<Rightarrow> char" where
  \<comment> \<open>\<^verbatim>\<open>str.lower\<close> on one ASCII character; other bytes are left as they are\<close>
  "lower_char c =
     (let n = of_char c :: nat in if 65 \<le> n \<and> n \<le> 90 then char_of (n + 32) else c)"

definition lower :: "string \<Rightarrow> string" where
  "lower s = map lower_char s"

fun py_in :: "string \<Rightarrow> string \<Rightarrow> bool" where
  \<comment> \<open>\<^verbatim>\<open>t in s\<close> on strings: \<open>t\<close> occurs in \<open>s\<close> as a contiguous substring\<close>
  "py_in t [] = (t = [])"
| "py_in t (c # cs) = (take (length t) (c # cs) = t \<or> py_in t cs)"

subsection \<open>Naive datetimes\<close>

text \<open>
  A naive \<^verbatim>\<open>datetime\<close> is a point of the proleptic Gregorian calendar between
  0001-01-01T00:00:00 and 9999-12-31T23:59:59.999999. It is modelled by the number of
  microseconds since 0001-01-01T00:00:00: Python's comparison of two datetimes is the
  order of these numbers, and \<^verbatim>\<open>datetime - timedelta\<close> is their difference, with
  \<^verbatim>\<open>OverflowError\<close> when the result leaves the range. The calendar fields that
  \<^verbatim>\<open>strftime\<close> and \<^verbatim>\<open>isoformat\<close> print are computed as CPython's
  \<^verbatim>\<open>_ord2ymd\<close> does.
\<close>

type_synonym datetime = int

datatype py_exn =
    OverflowError
  | AttributeError
  | KeyError string
  | TypeError
  | JSONDecodeError
  | TransportError string
  | Fault string

definition US_PER_SECOND :: int where "US_PER_SECOND = 1000000"
definition US_PER_HOUR :: int where "US_PER_HOUR = 3600000000"
definition US_PER_DAY :: int where "US_PER_DAY = 86400000000"

definition MAX_ORDINAL :: int where
  \<comment> \<open>\<^verbatim>\<open>date(9999, 12, 31).toordinal()\<close>\<close>
  "MAX_ORDINAL = 3652059"

definition MAX_DATETIME :: datetime where
  "MAX_DATETIME = MAX_ORDINAL * US_PER_DAY - 1"

definition valid_datetime :: "datetime \<Rightarrow> bool" where
  "valid_datetime t = (0 \<le> t \<and> t \<le> MAX_DATETIME)"

definition MAX_DELTA_DAYS :: int where "MAX_DELTA_DAYS = 999999999"

definition timedelta_hours :: "int \<Rightarrow> py_exn + int" where
  \<comment> \<open>\<^verbatim>\<open>timedelta(hours=h)\<close>, in microseconds; its days must lie within
      \<open>\<plusminus>999999999\<close>\<close>
  "timedelta_hours h =
     (if - MAX_DELTA_DAYS \<le> h div 24 \<and> h div 24 \<le> MAX_DELTA_DAYS
      then Inr (h * US_PER_HOUR) else Inl OverflowError)"

definition timedelta_days :: "int \<Rightarrow> py_exn + int" where
  "timedelta_days d =
     (if - MAX_DELTA_DAYS \<le> d \<and> d \<le> MAX_DELTA_DAYS
      then Inr (d * US_PER_DAY) else Inl OverflowError)"

definition datetime_sub :: "datetime \<Rightarrow> int \<Rightarrow> py_exn + datetime" where
  \<comment> \<open>\<^verbatim>\<open>dt - delta\<close>\<close>
  "datetime_sub t d = (if valid_datetime (t - d) then Inr (t - d) else Inl OverflowError)"

definition days_before_month :: "int \<Rightarrow> int" where
  \<comment> \<open>\<^verbatim>\<open>_DAYS_BEFORE_MONTH[month]\<close>\<close>
  "days_before_month m = [0, 0, 31, 59, 90, 120, 151, 181, 212, 243, 273, 304, 334] ! nat m"

definition days_in_month_tab :: "int \<Rightarrow> int" where
  \<comment> \<open>\<^verbatim>\<open>_DAYS_IN_MONTH[month]\<close>\<close>
  "days_in_month_tab m = [0, 31, 28, 31, 30, 31, 30, 31, 31, 30, 31, 30, 31] ! nat m"

definition ord2ymd :: "int \<Rightarrow> int \<times> int \<times> int" where
  "ord2ymd ordinal =
     (let n = ordinal - 1;
          n400 = n div 146097; n = n mod 146097;
          year = n400 * 400 + 1;
          n100 = n div 36524; n = n mod 36524;
          n4 = n div 1461; n = n mod 1461;
          n1 = n div 365; n = n mod 365;
          year = year + n100 * 100 + n4 * 4 + n1
      in if n1 = 4 \<or> n100 = 4 then (year - 1, 12, 31)
         else
           let leapyear = (n1 = 3 \<and> (n4 \<noteq> 24 \<or> n100 = 3));
               month = (n + 50) div 32;
               preceding = days_before_month month + (if month > 2 \<and> leapyear then 1 else 0)
           in if preceding > n
              then
                let month = month - 1;
                    preceding = preceding
                      - (days_in_month_tab month + (if month = 2 \<and> leapyear then 1 else 0))
                in (year, month, n - preceding + 1)
              else (year, month, n - preceding + 1))"

definition dt_ymd :: "datetime \<Rightarrow> int \<times> int \<times> int" where
  "dt_ymd t = ord2ymd (t div US_PER_DAY + 1)"

definition dt_hour :: "datetime \<Rightarrow> int" where
  "dt_hour t = (t mod US_PER_DAY) div US_PER_HOUR"

definition dt_minute :: "datetime \<Rightarrow> int" where
  "dt_minute t = ((t mod US_PER_DAY) div 60000000) mod 60"

definition dt_second :: "datetime \<Rightarrow> int" where
  "dt_second t = ((t mod US_PER_DAY) div US_PER_SECOND) mod 60"

definition dt_microsecond :: "datetime \<Rightarrow> int" where
  "dt_microsecond t = t mod US_PER_SECOND"

definition pad :: "nat \<Rightarrow> int \<Rightarrow> string" where
  "pad k i = zfill k (dec_digits i)"

definition strftime_Ymd_HMS :: "datetime \<Rightarrow> string" where
  \<comment> \<open>\<^verbatim>\<open>dt.strftime('%Y%m%d_%H%M%S')\<close>\<close>
  "strftime_Ymd_HMS t =
     (case dt_ymd t of (y, m, d) \<Rightarrow>
        pad 4 y @ pad 2 m @ pad 2 d @ ''_'' @
        pad 2 (dt_hour t) @ pad 2 (dt_minute t) @ pad 2 (dt_second t))"

definition strftime_Y_m_d :: "datetime \<Rightarrow> string" where
  \<comment> \<open>\<^verbatim>\<open>dt.strftime('%Y-%m-%d')\<close>\<close>
  "strftime_Y_m_d t =
     (case dt_ymd t of (y, m, d) \<Rightarrow> pad 4 y @ ''-'' @ pad 2 m @ ''-'' @ pad 2 d)"

definition isoformat :: "datetime \<Rightarrow> string" where
  \<comment> \<open>\<^verbatim>\<open>dt.isoformat()\<close>: the microseconds are printed only when they are not zero\<close>
  "isoformat t =
     (case dt_ymd t of (y, m, d) \<Rightarrow>
        pad 4 y @ ''-'' @ pad 2 m @ ''-'' @ pad 2 d @ ''T'' @
        pad 2 (dt_hour t) @ '':'' @ pad 2 (dt_minute t) @ '':'' @ pad 2 (dt_second t) @
        (if dt_microsecond t = 0 then [] else ''.'' @ pad 6 (dt_microsecond t)))"

subsection \<open>The data model\<close>

datatype AlertSeverity = INFO | WARNING | CRITICAL | URGENT

fun severity_value :: "AlertSeverity \<Rightarrow> string" where
  "severity_value INFO = ''info''"
| "severity_value WARNING = ''warning''"
| "severity_value CRITICAL = ''critical''"
| "severity_value URGENT = ''urgent''"

datatype NotificationChannel = EMAIL | WEBHOOK | SMS | SLACK

fun channel_value :: "NotificationChannel \<Rightarrow> string" where
  "channel_value EMAIL = ''email''"
| "channel_value WEBHOOK = ''webhook''"
| "channel_value SMS = ''sms''"
| "channel_value SLACK = ''slack''"

text \<open>
  JSON values as \<^verbatim>\<open>response.json()\<close> returns them, and as the \<^verbatim>\<open>Any\<close> of an
  alert's metadata. Numbers are integers here; a \<open>JDict\<close> lists the items of the dict,
  each key once.
\<close>

datatype json =
    JNull
  | JBool bool
  | JInt int
  | JStr string
  | JList "json list"
  | JDict "(string \<times> json) list"

record Alert =
  alert_id :: string
  title :: string
  message :: string
  severity :: AlertSeverity
  source :: string
  target_person :: string
  target_id :: "string option"
  created_at :: datetime
  channels :: "NotificationChannel list"
  metadata :: "(string \<times> json) list"

text \<open>The dict \<^verbatim>\<open>monitor_config\<close>: the field \<open>m_k\<close> is its key \<^verbatim>\<open>k\<close>.\<close>

record Monitor =
  m_id :: string
  m_person_name :: string
  m_person_id :: string
  m_alert_triggers :: "string list"
  m_channels :: "string list"
  m_active :: bool
  m_last_check :: "datetime option"
  m_check_interval :: nat
  m_sources :: "string list"

text \<open>The entries of \<^verbatim>\<open>notification_configs\<close> and \<^verbatim>\<open>justice_apis\<close> that the
  code reads, and \<^verbatim>\<open>retries\<close>, which it never reads.\<close>

record Config =
  smtp_server :: string
  smtp_port :: nat
  email_username :: string
  email_password :: string
  from_email :: string
  webhook_default_url :: string
  webhook_timeout :: nat
  webhook_retries :: nat
  courtlistener_base_url :: string
  courtlistener_token :: "string option"

text \<open>What the process does to the outside.\<close>

datatype event =
    Print string
  | Sleep nat
  | HttpGet string "(string \<times> string) list" "(string \<times> string) list"
  | HttpPost string "(string \<times> json) list" nat
  | SmtpSendmail string string string Alert

text \<open>
  The manager. \<open>active_monitors\<close> maps a monitor id to the reference of its dict and
  \<open>heap\<close> holds the dicts, so that the loop, which keeps the reference it fetched once,
  and \<^verbatim>\<open>stop_monitoring\<close>, which goes through the registry, meet in the same object
  exactly when Python's do. \<open>tick\<close> counts the interactions with the world and
  \<open>trace\<close> records the effects.
\<close>

record NotificationManager =
  alerts_queue :: "Alert list"
  active_monitors :: "string \<rightharpoonup> nat"
  heap :: "nat \<rightharpoonup> Monitor"
  next_ref :: nat
  cfg :: Config
  tick :: nat
  trace :: "event list"

datatype http_result =
    HttpRaise py_exn
  | HttpResponse int "json option"

text \<open>
  The world. Each oracle is read at the current \<open>tick\<close>:
  \<^item> \<open>clock\<close>: what \<^verbatim>\<open>datetime.now()\<close> returns;
  \<^item> \<open>timestamp_str\<close>: \<^verbatim>\<open>str(dt.timestamp())\<close>, which depends on the local time zone
    and on float printing;
  \<^item> \<open>random_float\<close>: what \<^verbatim>\<open>random.random()\<close> returns, \<open>random_index\<close>: the draw
    behind \<^verbatim>\<open>random.choice\<close> and \<^verbatim>\<open>random.randint\<close>;
  \<^item> \<open>http_get\<close>: the outcome of \<^verbatim>\<open>client.get\<close>, a raised error or a status with
    the body as \<^verbatim>\<open>response.json()\<close> parses it (\<open>None\<close>: it does not parse);
  \<^item> \<open>http_post\<close>: the outcome of \<^verbatim>\<open>client.post\<close>, a raised error or a status;
  \<^item> \<open>smtp\<close>: the error the SMTP session raises, if any;
  \<^item> \<open>stops\<close>: the monitor ids that other tasks pass to \<^verbatim>\<open>stop_monitoring\<close> while
    this task is suspended in an \<^verbatim>\<open>await\<close> (the only interleaved operation modelled);
  \<^item> \<open>fault\<close>: the error, if any, raised at a statement of the loop's own body;
  \<^item> \<open>str_json\<close>: \<^verbatim>\<open>str(v)\<close> of a JSON value inside an f-string.
\<close>

record world =
  clock :: "nat \<Rightarrow> datetime"
  timestamp_str :: "datetime \<Rightarrow> string"
  random_float :: "nat \<Rightarrow> rat"
  random_index :: "nat \<Rightarrow> nat"
  http_get :: "nat \<Rightarrow> http_result"
  http_post :: "nat \<Rightarrow> py_exn + int"
  smtp :: "nat \<Rightarrow> py_exn option"
  stops :: "nat \<Rightarrow> string list"
  fault :: "nat \<Rightarrow> string option"
  str_json :: "json \<Rightarrow> string"

fun exn_str :: "py_exn \<Rightarrow> string" where
  \<comment> \<open>\<^verbatim>\<open>str(e)\<close>; the interpreter's message texts are not reproduced\<close>
  "exn_str OverflowError = ''date value out of range''"
| "exn_str AttributeError = ''object has no attribute''"
| "exn_str (KeyError k) = k"
| "exn_str TypeError = ''unsupported operand''"
| "exn_str JSONDecodeError = ''Expecting value''"
| "exn_str (TransportError msg) = msg"
| "exn_str (Fault msg) = msg"

subsection \<open>Interactions with the world\<close>

definition step :: "NotificationManager \<Rightarrow> NotificationManager" where
  "step s = s\<lparr>tick := Suc (tick s)\<rparr>"

definition now :: "world \<Rightarrow> NotificationManager \<Rightarrow> datetime \<times> NotificationManager" where
  "now w s = (clock w (tick s), step s)"

definition random :: "world \<Rightarrow> NotificationManager \<Rightarrow> rat \<times> NotificationManager" where
  "random w s = (random_float w (tick s), step s)"

definition choice :: "world \<Rightarrow> 'a list \<Rightarrow> NotificationManager \<Rightarrow> 'a \<times> NotificationManager" where
  \<comment> \<open>\<^verbatim>\<open>random.choice(xs)\<close>, for the non-empty constant lists of the source\<close>
  "choice w xs s = (xs ! (random_index w (tick s) mod length xs), step s)"

definition randint :: "world \<Rightarrow> int \<Rightarrow> int \<Rightarrow> NotificationManager \<Rightarrow> int \<times> NotificationManager" where
  "randint w a b s = (a + int (random_index w (tick s)) mod (b - a + 1), step s)"

definition emit :: "event \<Rightarrow> NotificationManager \<Rightarrow> NotificationManager" where
  "emit ev s = s\<lparr>trace := trace s @ [ev]\<rparr>"

definition print :: "string \<Rightarrow> NotificationManager \<Rightarrow> NotificationManager" where
  "print text s = emit (Print text) s"

definition update_monitor ::
  "nat \<Rightarrow> (Monitor \<Rightarrow> Monitor) \<Rightarrow> NotificationManager \<Rightarrow> NotificationManager" where
  \<comment> \<open>an item assignment on the dict behind a reference\<close>
  "update_monitor r f s = s\<lparr>heap := (heap s)(r := map_option f (heap s r))\<rparr>"

definition stop_monitoring :: "string \<Rightarrow> NotificationManager \<Rightarrow> bool \<times> NotificationManager" where
  "stop_monitoring monitor_id s =
     (case active_monitors s monitor_id of
        Some r \<Rightarrow> (True, update_monitor r (\<lambda>m. m\<lparr>m_active := False\<rparr>) s)
      | None \<Rightarrow> (False, s))"

definition suspend :: "world \<Rightarrow> NotificationManager \<Rightarrow> NotificationManager" where
  \<comment> \<open>an \<^verbatim>\<open>await\<close> that yields to the event loop: the other tasks' calls of
      \<^verbatim>\<open>stop_monitoring\<close> run before this task resumes\<close>
  "suspend w s = step (foldl (\<lambda>s' monitor_id. snd (stop_monitoring monitor_id s')) s (stops w (tick s)))"

definition sleep :: "world \<Rightarrow> nat \<Rightarrow> NotificationManager \<Rightarrow> NotificationManager" where
  \<comment> \<open>\<^verbatim>\<open>await asyncio.sleep(seconds)\<close>\<close>
  "sleep w seconds s = suspend w (emit (Sleep seconds) s)"

definition lookup_monitor :: "NotificationManager \<Rightarrow> string \<Rightarrow> Monitor option" where
  \<comment> \<open>\<^verbatim>\<open>active_monitors.get(monitor_id)\<close>\<close>
  "lookup_monitor s monitor_id =
     (case active_monitors s monitor_id of Some r \<Rightarrow> heap s r | None \<Rightarrow> None)"

subsection \<open>Source checkers\<close>

fun py_get :: "json \<Rightarrow> string \<Rightarrow> json \<Rightarrow> py_exn + json" where
  \<comment> \<open>\<^verbatim>\<open>obj.get(key, default)\<close>: only a dict has \<^verbatim>\<open>get\<close>\<close>
  "py_get (JDict items) key dflt =
     Inr (case map_of items key of Some v \<Rightarrow> v | None \<Rightarrow> dflt)"
| "py_get _ key dflt = Inl AttributeError"

fun py_getitem :: "json \<Rightarrow> string \<Rightarrow> py_exn + json" where
  \<comment> \<open>\<^verbatim>\<open>obj[key]\<close> with a string key\<close>
  "py_getitem (JDict items) key =
     (case map_of items key of Some v \<Rightarrow> Inr v | None \<Rightarrow> Inl (KeyError key))"
| "py_getitem _ key = Inl TypeError"

fun py_iter :: "json \<Rightarrow> py_exn + json list" where
  \<comment> \<open>what \<^verbatim>\<open>for x in obj\<close> runs over: the items of a list, the characters of a string,
      the keys of a dict\<close>
  "py_iter (JList xs) = Inr xs"
| "py_iter (JStr text) = Inr (map (\<lambda>c. JStr [c]) text)"
| "py_iter (JDict items) = Inr (map (\<lambda>kv. JStr (fst kv)) items)"
| "py_iter _ = Inl TypeError"

fun py_lower :: "json \<Rightarrow> py_exn + string" where
  \<comment> \<open>\<^verbatim>\<open>obj.lower()\<close>: only a string has \<^verbatim>\<open>lower\<close>\<close>
  "py_lower (JStr text) = Inr (lower text)"
| "py_lower _ = Inl AttributeError"

fun any_trigger :: "string list \<Rightarrow> string list \<Rightarrow> json \<Rightarrow> py_exn + bool" where
  \<comment> \<open>\<^verbatim>\<open>any(trigger in opinion.get("plain_text", "").lower() for trigger in candidates
      if trigger in alert_triggers)\<close>: the text is fetched only for a candidate that
      passes the filter, and the scan stops at the first hit\<close>
  "any_trigger [] alert_triggers opinion = Inr False"
| "any_trigger (trigger # candidates) alert_triggers opinion =
     (if trigger \<in> set alert_triggers
      then
        (case py_get opinion ''plain_text'' (JStr []) of
           Inl e \<Rightarrow> Inl e
         | Inr v \<Rightarrow>
             (case py_lower v of
                Inl e \<Rightarrow> Inl e
              | Inr text \<Rightarrow>
                  if py_in trigger text then Inr True
                  else any_trigger candidates alert_triggers opinion))
      else any_trigger candidates alert_triggers opinion)"

definition o_acute :: string where
  \<comment> \<open>the UTF-8 bytes of the accented o in the Spanish texts\<close>
  "o_acute = [CHR 0xC3, CHR 0xB3]"

definition courtlistener_alert ::
  "world \<Rightarrow> string \<Rightarrow> json \<Rightarrow> NotificationManager \<Rightarrow> (py_exn + Alert) \<times> NotificationManager" where
  \<comment> \<open>the \<^verbatim>\<open>Alert(...)\<close> of \<^verbatim>\<open>_check_courtlistener\<close>, its arguments evaluated in
      the order they are written\<close>
  "courtlistener_alert w person_name opinion s0 =
     (case py_getitem opinion ''id'' of
        Inl e \<Rightarrow> (Inl e, s0)
      | Inr opinion_id \<Rightarrow>
     (case now w s0 of (t_id, s1) \<Rightarrow>
     (case py_get opinion ''case_name'' (JStr ''N/A'') of
        Inl e \<Rightarrow> (Inl e, s1)
      | Inr case_name_or_na \<Rightarrow>
     (case now w s1 of (t_created, s2) \<Rightarrow>
     (case py_get opinion ''case_name'' JNull of
        Inl e \<Rightarrow> (Inl e, s2)
      | Inr case_name \<Rightarrow>
     (case py_get opinion ''cluster'' (JDict []) of
        Inl e \<Rightarrow> (Inl e, s2)
      | Inr cluster \<Rightarrow>
     (case py_get cluster ''docket'' (JDict []) of
        Inl e \<Rightarrow> (Inl e, s2)
      | Inr docket \<Rightarrow>
     (case py_get docket ''court'' JNull of
        Inl e \<Rightarrow> (Inl e, s2)
      | Inr court \<Rightarrow>
     (case py_get opinion ''date_created'' JNull of
        Inl e \<Rightarrow> (Inl e, s2)
      | Inr date_filed \<Rightarrow>
     (case py_get opinion ''absolute_url'' (JStr []) of
        Inl e \<Rightarrow> (Inl e, s2)
      | Inr absolute_url \<Rightarrow>
          (Inr \<lparr>alert_id = ''cl_'' @ str_json w opinion_id @ ''_'' @ timestamp_str w t_id,
                title = ''Nuevo Caso Judicial Detectado'',
                message = ''Nueva menci'' @ o_acute @ ''n de '' @ person_name
                  @ '' en caso judicial: '' @ str_json w case_name_or_na,
                severity = CRITICAL,
                source = ''courtlistener'',
                target_person = person_name,
                target_id = None,
                created_at = t_created,
                channels = [EMAIL, WEBHOOK],
                metadata =
                  [(''case_name'', case_name),
                   (''court'', court),
                   (''date_filed'', date_filed),
                   (''url'', JStr (''https://www.courtlistener.com'' @ str_json w absolute_url))]\<rparr>,
           s2)))))))))))"

fun scan_opinions ::
  "world \<Rightarrow> string \<Rightarrow> string list \<Rightarrow> json list \<Rightarrow> Alert list \<Rightarrow> NotificationManager
   \<Rightarrow> (py_exn option \<times> Alert list) \<times> NotificationManager" where
  \<comment> \<open>\<^verbatim>\<open>for opinion in data.get("results", [])\<close>: the alerts appended before an error
      stay in \<^verbatim>\<open>alerts\<close>\<close>
  "scan_opinions w person_name alert_triggers [] alerts s = ((None, alerts), s)"
| "scan_opinions w person_name alert_triggers (opinion # rest) alerts s =
     (case any_trigger [''arrest'', ''conviction'', ''sentence''] alert_triggers opinion of
        Inl e \<Rightarrow> ((Some e, alerts), s)
      | Inr hit \<Rightarrow>
          if hit
          then
            (case courtlistener_alert w person_name opinion s of
               (Inl e, s') \<Rightarrow> ((Some e, alerts), s')
             | (Inr alert, s') \<Rightarrow>
                 scan_opinions w person_name alert_triggers rest (alerts @ [alert]) s')
          else scan_opinions w person_name alert_triggers rest alerts s)"

definition courtlistener_try ::
  "world \<Rightarrow> string \<Rightarrow> string list \<Rightarrow> NotificationManager
   \<Rightarrow> (py_exn option \<times> Alert list) \<times> NotificationManager" where
  \<comment> \<open>the \<^verbatim>\<open>try\<close> block of \<^verbatim>\<open>_check_courtlistener\<close>: the error it raises, if any, and
      \<^verbatim>\<open>alerts\<close> as it stands then\<close>
  "courtlistener_try w person_name alert_triggers s0 =
     (case courtlistener_token (cfg s0) of
        None \<Rightarrow> ((None, []), s0)
      | Some token \<Rightarrow>
          if token = [] then ((None, []), s0)
          else
            (case now w s0 of (t, s1) \<Rightarrow>
            (case timedelta_days 1 of
               Inl e \<Rightarrow> ((Some e, []), s1)
             | Inr one_day \<Rightarrow>
            (case datetime_sub t one_day of
               Inl e \<Rightarrow> ((Some e, []), s1)
             | Inr since \<Rightarrow>
                 let request = HttpGet (courtlistener_base_url (cfg s1) @ ''opinions/'')
                       [(''Authorization'', ''Token '' @ token),
                        (''User-Agent'', ''TAVIT/1.0 (ceo@tavit.com)'')]
                       [(''q'', person_name),
                        (''order_by'', ''-date_created''),
                        (''date_created__gte'', strftime_Y_m_d since)];
                     response = http_get w (tick s1);
                     s2 = suspend w (emit request s1)
                 in
                   (case response of
                      HttpRaise e \<Rightarrow> ((Some e, []), s2)
                    | HttpResponse status_code body \<Rightarrow>
                        if status_code = 200
                        then
                          (case body of
                             None \<Rightarrow> ((Some JSONDecodeError, []), s2)
                           | Some data \<Rightarrow>
                               (case py_get data ''results'' (JList []) of
                                  Inl e \<Rightarrow> ((Some e, []), s2)
                                | Inr results \<Rightarrow>
                                    (case py_iter results of
                                       Inl e \<Rightarrow> ((Some e, []), s2)
                                     | Inr opinions \<Rightarrow>
                                         scan_opinions w person_name alert_triggers opinions [] s2)))
                        else ((None, []), s2))))))"

definition check_courtlistener ::
  "world \<Rightarrow> string \<Rightarrow> string list \<Rightarrow> NotificationManager
   \<Rightarrow> (py_exn + Alert list) \<times> NotificationManager" where
  \<comment> \<open>\<^verbatim>\<open>except Exception as e: print(...)\<close>, then \<^verbatim>\<open>return alerts\<close> on both paths\<close>
  "check_courtlistener w person_name alert_triggers s =
     (case courtlistener_try w person_name alert_triggers s of
        ((None, alerts), s') \<Rightarrow> (Inr alerts, s')
      | ((Some e, alerts), s') \<Rightarrow>
          (Inr alerts, print (''Error checking CourtListener: '' @ exn_str e) s'))"

definition check_vinelink ::
  "world \<Rightarrow> string \<Rightarrow> string \<Rightarrow> NotificationManager
   \<Rightarrow> (py_exn + Alert list) \<times> NotificationManager" where
  "check_vinelink w person_name person_id s0 =
     (case random w s0 of (draw, s1) \<Rightarrow>
        if draw < 1 / 100
        then
          (case now w s1 of (t_id, s2) \<Rightarrow>
          (case now w s2 of (t_created, s3) \<Rightarrow>
             (Inr [\<lparr>alert_id = ''vine_'' @ replace_space person_name @ ''_'' @ timestamp_str w t_id,
                    title = ''Alerta VINELink - Cambio de Estado'',
                    message = ''VINELink reporta cambio de estado para '' @ person_name
                      @ ''. Revisar inmediatamente.'',
                    severity = URGENT,
                    source = ''vinelink'',
                    target_person = person_name,
                    target_id = Some person_id,
                    created_at = t_created,
                    channels = [EMAIL, SMS],
                    metadata =
                      [(''facility'', JStr ''Simulado - Centro Correccional''),
                       (''status_change'', JStr ''Release Pending''),
                       (''notification_type'', JStr ''Custody Status Change'')]\<rparr>],
              s3)))
        else (Inr [], s1))"

definition check_pacer ::
  "world \<Rightarrow> string \<Rightarrow> string list \<Rightarrow> NotificationManager
   \<Rightarrow> (py_exn + Alert list) \<times> NotificationManager" where
  "check_pacer w person_name alert_triggers s0 =
     (case random w s0 of (draw, s1) \<Rightarrow>
        if draw < 2 / 100
        then
          (case choice w [''Criminal'', ''Civil'', ''Bankruptcy'', ''Appeals''] s1 of (case_type, s2) \<Rightarrow>
          (case now w s2 of (t_id, s3) \<Rightarrow>
          (case now w s3 of (t_created, s4) \<Rightarrow>
          (case randint w 10 99 s4 of (n1, s5) \<Rightarrow>
          (case now w s5 of (t_year, s6) \<Rightarrow>
          (case randint w 1000 9999 s6 of (n2, s7) \<Rightarrow>
          (case now w s7 of (t_filing, s8) \<Rightarrow>
             (Inr [\<lparr>alert_id = ''pacer_'' @ replace_space person_name @ ''_'' @ timestamp_str w t_id,
                    title = ''Nuevo Caso PACER - '' @ case_type,
                    message = ''Nuevo caso '' @ lower case_type @ '' en PACER involucra a ''
                      @ person_name,
                    severity = (if case_type = ''Criminal'' then CRITICAL else WARNING),
                    source = ''pacer'',
                    target_person = person_name,
                    target_id = None,
                    created_at = t_created,
                    channels = [EMAIL, WEBHOOK],
                    metadata =
                      [(''case_type'', JStr case_type),
                       (''court'', JStr ''U.S. District Court''),
                       (''case_number'',
                          JStr (dec_int n1 @ '':'' @ dec_int (fst (dt_ymd t_year)) @ '':cv:''
                            @ dec_int n2)),
                       (''filing_date'', JStr (strftime_Y_m_d t_filing))]\<rparr>],
              s8))))))))
        else (Inr [], s1))"

definition check_state_courts ::
  "world \<Rightarrow> string \<Rightarrow> string list \<Rightarrow> NotificationManager
   \<Rightarrow> (py_exn + Alert list) \<times> NotificationManager" where
  "check_state_courts w person_name alert_triggers s0 =
     (case random w s0 of (draw, s1) \<Rightarrow>
        if draw < 15 / 1000
        then
          (case choice w [''California'', ''Texas'', ''Florida'', ''New York'', ''Illinois''] s1
             of (state, s2) \<Rightarrow>
          (case choice w [''Superior Court'', ''Circuit Court'', ''District Court''] s2
             of (court_type, s3) \<Rightarrow>
          (case now w s3 of (t_id, s4) \<Rightarrow>
          (case now w s4 of (t_created, s5) \<Rightarrow>
          (case now w s5 of (t_record, s6) \<Rightarrow>
             (Inr [\<lparr>alert_id = ''state_'' @ lower state @ ''_'' @ replace_space person_name
                      @ ''_'' @ timestamp_str w t_id,
                    title = ''Caso en Tribunal Estatal - '' @ state,
                    message = ''Nuevo registro en '' @ court_type @ '' de '' @ state @ '' para ''
                      @ person_name,
                    severity = WARNING,
                    source = ''state_court_'' @ lower state,
                    target_person = person_name,
                    target_id = None,
                    created_at = t_created,
                    channels = [EMAIL],
                    metadata =
                      [(''state'', JStr state),
                       (''court_type'', JStr court_type),
                       (''case_category'', JStr ''Civil/Criminal TBD''),
                       (''record_date'', JStr (strftime_Y_m_d t_record))]\<rparr>],
              s6))))))
        else (Inr [], s1))"

subsection \<open>Channel dispatchers\<close>

definition upper_char :: "char \<Rightarrow> char" where
  \<comment> \<open>\<^verbatim>\<open>str.upper\<close> on one ASCII character\<close>
  "upper_char c =
     (let n = of_char c :: nat in if 97 \<le> n \<and> n \<le> 122 then char_of (n - 32) else c)"

definition upper :: "string \<Rightarrow> string" where
  "upper text = map upper_char text"

definition send_email_alert :: "world \<Rightarrow> Alert \<Rightarrow> NotificationManager \<Rightarrow> NotificationManager" where
  \<comment> \<open>the message body, an f-string over the alert's fields, is not spelled out: the event
      carries the alert it is printed from\<close>
  "send_email_alert w alert s =
     (if email_password (cfg s) = []
      then print (''Email not configured, would send: '' @ title alert) s
      else
        (case smtp w (tick s) of
           None \<Rightarrow>
             emit (SmtpSendmail (from_email (cfg s)) ''admin@tavit.com''
                     (''TAVIT Alert ['' @ upper (severity_value (severity alert)) @ '']: ''
                        @ title alert)
                     alert)
               (step s)
         | Some e \<Rightarrow> print (''Error sending email alert: '' @ exn_str e) (step s)))"

definition webhook_payload :: "Alert \<Rightarrow> (string \<times> json) list" where
  "webhook_payload alert =
     [(''alert_id'', JStr (alert_id alert)),
      (''title'', JStr (title alert)),
      (''message'', JStr (message alert)),
      (''severity'', JStr (severity_value (severity alert))),
      (''source'', JStr (source alert)),
      (''target_person'', JStr (target_person alert)),
      (''target_id'', (case target_id alert of None \<Rightarrow> JNull | Some i \<Rightarrow> JStr i)),
      (''created_at'', JStr (isoformat (created_at alert))),
      (''metadata'', JDict (metadata alert))]"

definition send_webhook_alert :: "world \<Rightarrow> Alert \<Rightarrow> NotificationManager \<Rightarrow> NotificationManager" where
  "send_webhook_alert w alert s =
     (let webhook_url = webhook_default_url (cfg s) in
      if webhook_url = []
      then print (''Webhook not configured, would send: '' @ title alert) s
      else
        let request = HttpPost webhook_url (webhook_payload alert) (webhook_timeout (cfg s));
            response = http_post w (tick s);
            s' = suspend w (emit request s)
        in
          (case response of
             Inl e \<Rightarrow> print (''Error sending webhook alert: '' @ exn_str e) s'
           | Inr status_code \<Rightarrow>
               if status_code \<noteq> 200
               then print (''Webhook failed with status '' @ dec_int status_code) s'
               else s'))"

definition send_sms_alert :: "world \<Rightarrow> Alert \<Rightarrow> NotificationManager \<Rightarrow> NotificationManager" where
  "send_sms_alert w alert s =
     print (''SMS Alert (simulated): '' @ title alert @ '' - '' @ message alert) s"

definition send_slack_alert :: "world \<Rightarrow> Alert \<Rightarrow> NotificationManager \<Rightarrow> NotificationManager" where
  "send_slack_alert w alert s = print (''Slack Alert (simulated): '' @ title alert) s"

subsection \<open>Alert pipeline\<close>

fun dispatch_channels ::
  "world \<Rightarrow> Alert \<Rightarrow> string list \<Rightarrow> NotificationManager \<Rightarrow> NotificationManager" where
  \<comment> \<open>\<^verbatim>\<open>for channel_name in channels\<close> with its \<^verbatim>\<open>if\<close>/\<^verbatim>\<open>elif\<close> chain\<close>
  "dispatch_channels w alert [] s = s"
| "dispatch_channels w alert (channel_name # rest) s =
     dispatch_channels w alert rest
       (if channel_name = ''email'' then send_email_alert w alert s
        else if channel_name = ''webhook'' then send_webhook_alert w alert s
        else if channel_name = ''sms'' then send_sms_alert w alert s
        else if channel_name = ''slack'' then send_slack_alert w alert s
        else s)"

definition process_alert ::
  "world \<Rightarrow> Alert \<Rightarrow> string list \<Rightarrow> NotificationManager \<Rightarrow> NotificationManager" where
  \<comment> \<open>\<^verbatim>\<open>_process_alert(alert, channels)\<close>\<close>
  "process_alert w alert channel_names s =
     dispatch_channels w alert channel_names (s\<lparr>alerts_queue := alerts_queue s @ [alert]\<rparr>)"

definition get_recent_alerts ::
  "world \<Rightarrow> int \<Rightarrow> NotificationManager \<Rightarrow> (py_exn + Alert list) \<times> NotificationManager" where
  "get_recent_alerts w hours s0 =
     (case now w s0 of (t, s1) \<Rightarrow>
     (case timedelta_hours hours of
        Inl e \<Rightarrow> (Inl e, s1)
      | Inr delta \<Rightarrow>
     (case datetime_sub t delta of
        Inl e \<Rightarrow> (Inl e, s1)
      | Inr cutoff_time \<Rightarrow>
          (Inr (filter (\<lambda>alert. created_at alert > cutoff_time) (alerts_queue s1)), s1))))"

subsection \<open>Monitoring loop\<close>

definition statement :: "world \<Rightarrow> NotificationManager \<Rightarrow> py_exn option \<times> NotificationManager" where
  \<comment> \<open>a statement of the loop's own body starts: the world may make it raise\<close>
  "statement w s = (map_option Fault (fault w (tick s)), step s)"

fun process_all ::
  "world \<Rightarrow> Alert list \<Rightarrow> string list \<Rightarrow> NotificationManager
   \<Rightarrow> py_exn option \<times> NotificationManager" where
  \<comment> \<open>\<^verbatim>\<open>for alert in new_alerts: await self._process_alert(alert, monitor["channels"])\<close>\<close>
  "process_all w [] channel_names s = (None, s)"
| "process_all w (alert # rest) channel_names s =
     (case statement w s of
        (Some e, s') \<Rightarrow> (Some e, s')
      | (None, s') \<Rightarrow> process_all w rest channel_names (process_alert w alert channel_names s'))"

definition check_cycle ::
  "world \<Rightarrow> nat \<Rightarrow> Monitor \<Rightarrow> NotificationManager \<Rightarrow> py_exn option \<times> NotificationManager" where
  \<comment> \<open>the \<^verbatim>\<open>try\<close> block of the loop, for the monitor dict \<open>monitor\<close> behind the reference
      \<open>r\<close>: the error it raises, if any, and the state it leaves\<close>
  "check_cycle w r monitor s0 =
     (case check_courtlistener w (m_person_name monitor) (m_alert_triggers monitor) s0 of
        (Inl e, s1) \<Rightarrow> (Some e, s1)
      | (Inr courtlistener_alerts, s1) \<Rightarrow>
     (case statement w s1 of
        (Some e, s2) \<Rightarrow> (Some e, s2)
      | (None, s2) \<Rightarrow>
     (case check_vinelink w (m_person_name monitor) (m_person_id monitor) s2 of
        (Inl e, s3) \<Rightarrow> (Some e, s3)
      | (Inr vinelink_alerts, s3) \<Rightarrow>
     (case statement w s3 of
        (Some e, s4) \<Rightarrow> (Some e, s4)
      | (None, s4) \<Rightarrow>
     (case check_pacer w (m_person_name monitor) (m_alert_triggers monitor) s4 of
        (Inl e, s5) \<Rightarrow> (Some e, s5)
      | (Inr pacer_alerts, s5) \<Rightarrow>
     (case statement w s5 of
        (Some e, s6) \<Rightarrow> (Some e, s6)
      | (None, s6) \<Rightarrow>
     (case check_state_courts w (m_person_name monitor) (m_alert_triggers monitor) s6 of
        (Inl e, s7) \<Rightarrow> (Some e, s7)
      | (Inr state_alerts, s7) \<Rightarrow>
     (case statement w s7 of
        (Some e, s8) \<Rightarrow> (Some e, s8)
      | (None, s8) \<Rightarrow>
     (case process_all w (courtlistener_alerts @ vinelink_alerts @ pacer_alerts @ state_alerts)
             (m_channels monitor) s8 of
        (Some e, s9) \<Rightarrow> (Some e, s9)
      | (None, s9) \<Rightarrow>
     (case statement w s9 of
        (Some e, s10) \<Rightarrow> (Some e, s10)
      | (None, s10) \<Rightarrow>
     (case now w s10 of (t, s11) \<Rightarrow>
     (case statement w (update_monitor r (\<lambda>m. m\<lparr>m_last_check := Some t\<rparr>) s11) of
        (Some e, s12) \<Rightarrow> (Some e, s12)
      | (None, s12) \<Rightarrow> (None, sleep w (m_check_interval monitor) s12)))))))))))))"

definition error_alert :: "world \<Rightarrow> string \<Rightarrow> Monitor \<Rightarrow> py_exn \<Rightarrow> datetime \<Rightarrow> datetime \<Rightarrow> Alert" where
  "error_alert w monitor_id monitor e t_id t_created =
     \<lparr>alert_id = ''error_'' @ monitor_id @ ''_'' @ timestamp_str w t_id,
      title = ''Error en Monitoreo'',
      message = ''Error monitoreando '' @ m_person_name monitor @ '': '' @ exn_str e,
      severity = WARNING,
      source = ''system'',
      target_person = m_person_name monitor,
      target_id = Some (m_person_id monitor),
      created_at = t_created,
      channels = [EMAIL],
      metadata = [(''monitor_id'', JStr monitor_id), (''error'', JStr (exn_str e))]\<rparr>"

definition handle_error ::
  "world \<Rightarrow> string \<Rightarrow> Monitor \<Rightarrow> py_exn \<Rightarrow> NotificationManager \<Rightarrow> NotificationManager" where
  \<comment> \<open>the \<^verbatim>\<open>except Exception as e\<close> block of the loop\<close>
  "handle_error w monitor_id monitor e s0 =
     (case now w s0 of (t_id, s1) \<Rightarrow>
     (case now w s1 of (t_created, s2) \<Rightarrow>
        sleep w 300
          (process_alert w (error_alert w monitor_id monitor e t_id t_created)
             (m_channels monitor) s2)))"

definition loop_iteration ::
  "world \<Rightarrow> string \<Rightarrow> nat \<Rightarrow> Monitor \<Rightarrow> NotificationManager \<Rightarrow> NotificationManager" where
  "loop_iteration w monitor_id r monitor s =
     (case check_cycle w r monitor s of
        (None, s') \<Rightarrow> s'
      | (Some e, s') \<Rightarrow> handle_error w monitor_id monitor e s')"

partial_function (option) monitoring_loop ::
  "world \<Rightarrow> string \<Rightarrow> nat \<Rightarrow> NotificationManager \<Rightarrow> NotificationManager option" where
  \<comment> \<open>\<^verbatim>\<open>while monitor["active"]: ...\<close> on the dict behind \<open>r\<close>; \<open>None\<close>: the loop
      never ends\<close>
  "monitoring_loop w monitor_id r s =
     (case heap s r of
        None \<Rightarrow> Some s
      | Some monitor \<Rightarrow>
          if m_active monitor
          then monitoring_loop w monitor_id r (loop_iteration w monitor_id r monitor s)
          else Some s)"

declare monitoring_loop.simps [code]

definition start_monitoring_loop ::
  "world \<Rightarrow> string \<Rightarrow> NotificationManager \<Rightarrow> NotificationManager option" where
  "start_monitoring_loop w monitor_id s =
     (case active_monitors s monitor_id of
        None \<Rightarrow> Some s
      | Some r \<Rightarrow> monitoring_loop w monitor_id r s)"

subsection \<open>Registration\<close>

definition make_monitor_id :: "string \<Rightarrow> datetime \<Rightarrow> string" where
  "make_monitor_id name t = ''monitor_'' @ replace_space name @ ''_'' @ strftime_Ymd_HMS t"

definition register_monitor ::
  "world \<Rightarrow> string \<Rightarrow> string \<Rightarrow> string list \<Rightarrow> string list \<Rightarrow> NotificationManager
   \<Rightarrow> string \<times> NotificationManager" where
  \<comment> \<open>\<^verbatim>\<open>setup_person_monitoring\<close> up to \<^verbatim>\<open>self.active_monitors[monitor_id] =
      monitor_config\<close>: a new dict, bound to the id in the registry\<close>
  "register_monitor w name ident triggers notification_channels s0 =
     (case now w s0 of (t, s1) \<Rightarrow>
        let monitor_id = make_monitor_id name t;
            monitor_config =
              \<lparr>m_id = monitor_id,
               m_person_name = name,
               m_person_id = ident,
               m_alert_triggers = triggers,
               m_channels = notification_channels,
               m_active = True,
               m_last_check = None,
               m_check_interval = 3600,
               m_sources = [''courtlistener'', ''pacer'', ''vinelink'', ''state_courts'']\<rparr>;
            r = next_ref s1
        in (monitor_id,
            s1\<lparr>heap := (heap s1)(r \<mapsto> monitor_config),
               next_ref := Suc r,
               active_monitors := (active_monitors s1)(monitor_id \<mapsto> r)\<rparr>))"

definition setup_person_monitoring ::
  "world \<Rightarrow> string \<Rightarrow> string \<Rightarrow> string list \<Rightarrow> string list \<Rightarrow> NotificationManager
   \<Rightarrow> (string \<times> NotificationManager) option" where
  \<comment> \<open>\<^verbatim>\<open>await self._start_monitoring_loop(monitor_id)\<close>, then \<^verbatim>\<open>return monitor_id\<close>;
      \<open>None\<close>: the call never returns\<close>
  "setup_person_monitoring w name ident triggers notification_channels s =
     (case register_monitor w name ident triggers notification_channels s of
        (monitor_id, s') \<Rightarrow>
          map_option (\<lambda>s''. (monitor_id, s'')) (start_monitoring_loop w monitor_id s'))"

subsection \<open>Construction and sample worlds\<close>

definition getenv_default :: "(string \<Rightarrow> string option) \<Rightarrow> string \<Rightarrow> string \<Rightarrow> string" where
  \<comment> \<open>\<^verbatim>\<open>os.getenv(name, fallback)\<close>\<close>
  "getenv_default env name fallback = (case env name of Some v \<Rightarrow> v | None \<Rightarrow> fallback)"

definition init :: "(string \<Rightarrow> string option) \<Rightarrow> NotificationManager" where
  \<comment> \<open>\<^verbatim>\<open>NotificationManager.__init__\<close> under the environment variables \<open>env\<close>\<close>
  "init env =
     \<lparr>alerts_queue = [],
      active_monitors = Map.empty,
      heap = Map.empty,
      next_ref = 0,
      cfg =
        \<lparr>smtp_server = ''smtp.gmail.com'',
         smtp_port = 587,
         email_username = getenv_default env ''NOTIFICATION_EMAIL'' ''alerts@tavit.com'',
         email_password = getenv_default env ''NOTIFICATION_PASSWORD'' [],
         from_email = ''alerts@tavit.com'',
         webhook_default_url = getenv_default env ''WEBHOOK_URL'' [],
         webhook_timeout = 30,
         webhook_retries = 3,
         courtlistener_base_url = ''https://www.courtlistener.com/api/rest/v3/'',
         courtlistener_token = env ''COURTLISTENER_TOKEN''\<rparr>,
      tick = 0,
      trace = []\<rparr>"

definition no_env :: "string \<Rightarrow> string option" where
  "no_env name = None"

definition hook_env :: "string \<Rightarrow> string option" where
  \<comment> \<open>only \<^verbatim>\<open>WEBHOOK_URL\<close> is set\<close>
  "hook_env name = (if name = ''WEBHOOK_URL'' then Some ''https://hooks.example/tavit'' else None)"

definition new_year_2024 :: datetime where
  \<comment> \<open>2024-01-01T00:00:00, the day of ordinal 738886\<close>
  "new_year_2024 = 738885 * US_PER_DAY"

fun str_scalar :: "json \<Rightarrow> string" where
  \<comment> \<open>\<^verbatim>\<open>str(v)\<close> of a JSON scalar; the sample worlds do not print containers\<close>
  "str_scalar JNull = ''None''"
| "str_scalar (JBool b) = (if b then ''True'' else ''False'')"
| "str_scalar (JInt i) = dec_int i"
| "str_scalar (JStr text) = text"
| "str_scalar (JList xs) = ''[...]''"
| "str_scalar (JDict items) = ''{...}''"

definition strip_zeros :: "string \<Rightarrow> string" where
  "strip_zeros digits =
     (let kept = rev (dropWhile (\<lambda>c. c = CHR ''0'') (rev digits))
      in if kept = [] then ''0'' else kept)"

definition utc_timestamp_str :: "datetime \<Rightarrow> string" where
  \<comment> \<open>\<^verbatim>\<open>str(dt.timestamp())\<close> of a process whose local time is UTC, for a time from 1970 on:
      the seconds since 1970-01-01 (the day of ordinal 719163) and their fraction\<close>
  "utc_timestamp_str t =
     (let us = t - 719162 * US_PER_DAY
      in dec_int (us div US_PER_SECOND) @ ''.'' @ strip_zeros (pad 6 (us mod US_PER_SECOND)))"

definition quiet_world :: world where
  \<comment> \<open>a frozen clock, no simulated finding, an empty result page, every delivery accepted,
      no other task, no fault\<close>
  "quiet_world =
     \<lparr>clock = (\<lambda>n. new_year_2024),
      timestamp_str = utc_timestamp_str,
      random_float = (\<lambda>n. 1 / 2),
      random_index = (\<lambda>n. 0),
      http_get = (\<lambda>n. HttpResponse 200 (Some (JDict [(''results'', JList [])]))),
      http_post = (\<lambda>n. Inr 200),
      smtp = (\<lambda>n. None),
      stops = (\<lambda>n. []),
      fault = (\<lambda>n. None),
      str_json = str_scalar\<rparr>"

definition stopping_world :: "string \<Rightarrow> world" where
  \<comment> \<open>another task stops the monitor \<open>monitor_id\<close> during every suspension\<close>
  "stopping_world monitor_id = quiet_world\<lparr>stops := (\<lambda>n. [monitor_id])\<rparr>"

definition finding_world :: world where
  \<comment> \<open>every simulated checker finds something\<close>
  "finding_world = quiet_world\<lparr>random_float := (\<lambda>n. 0)\<rparr>"

definition faulty_world :: world where
  \<comment> \<open>the statement reached at the second interaction raises, nothing else does\<close>
  "faulty_world = quiet_world\<lparr>fault := (\<lambda>n. if n = 1 then Some ''boom'' else None)\<rparr>"

definition sample_alert :: Alert where
  "sample_alert =
     \<lparr>alert_id = ''vine_Jane_Doe_1704067200.0'',
      title = ''Alerta VINELink - Cambio de Estado'',
      message = ''VINELink reporta cambio de estado para Jane Doe. Revisar inmediatamente.'',
      severity = URGENT,
      source = ''vinelink'',
      target_person = ''Jane Doe'',
      target_id = Some ''JD-1'',
      created_at = new_year_2024,
      channels = [EMAIL, SMS],
      metadata = [(''status_change'', JStr ''Release Pending'')]\<rparr>"

subsection \<open>Predicates used in the statements\<close>

definition quiet :: "world \<Rightarrow> bool" where
  \<comment> \<open>no other task ever calls \<^verbatim>\<open>stop_monitoring\<close>\<close>
  "quiet w = (\<forall>n. stops w n = [])"

definition kept :: "NotificationManager \<Rightarrow> NotificationManager \<Rightarrow> bool" where
  \<comment> \<open>the alert log, the registry, the configuration and the allocator are the same\<close>
  "kept s s' = (alerts_queue s' = alerts_queue s \<and> active_monitors s' = active_monitors s
     \<and> cfg s' = cfg s \<and> next_ref s' = next_ref s)"

definition later_world :: world where
  "later_world = quiet_world\<lparr>clock := (\<lambda>n. new_year_2024 + 1800 * US_PER_SECOND)\<rparr>"

definition old_alert :: Alert where
  "old_alert = sample_alert\<lparr>alert_id := ''vine_Jane_Doe_1704060000.0'',
     created_at := new_year_2024 - 2 * US_PER_HOUR\<rparr>"

definition two_alerts :: NotificationManager where
  "two_alerts = (init no_env)\<lparr>alerts_queue := [old_alert, sample_alert]\<rparr>"

definition jane_registered :: NotificationManager where
  "jane_registered =
     snd (register_monitor quiet_world ''Jane Doe'' ''JD-1'' [''arrest''] [''webhook''] (init no_env))"

definition down_world :: world where
  \<comment> \<open>the federal case search cannot be reached\<close>
  "down_world = quiet_world\<lparr>http_get := (\<lambda>n. HttpRaise (TransportError ''connection refused''))\<rparr>"

definition token_env :: "string \<Rightarrow> string option" where
  \<comment> \<open>only \<^verbatim>\<open>COURTLISTENER_TOKEN\<close> is set\<close>
  "token_env name = (if name = ''COURTLISTENER_TOKEN'' then Some ''secret'' else None)"

definition channel_named :: "string \<Rightarrow> NotificationChannel option" where
  \<comment> \<open>the channel that a name selects in the \<^verbatim>\<open>if\<close>/\<^verbatim>\<open>elif\<close> chain of
      \<^verbatim>\<open>_process_alert\<close>; any other name selects nothing\<close>
  "channel_named channel_name =
     (if channel_name = ''email'' then Some EMAIL
      else if channel_name = ''webhook'' then Some WEBHOOK
      else if channel_name = ''sms'' then Some SMS
      else if channel_name = ''slack'' then Some SLACK
      else None)"

fun dispatcher ::
  "NotificationChannel \<Rightarrow> world \<Rightarrow> Alert \<Rightarrow> NotificationManager \<Rightarrow> NotificationManager" where
  "dispatcher EMAIL = send_email_alert"
| "dispatcher WEBHOOK = send_webhook_alert"
| "dispatcher SMS = send_sms_alert"
| "dispatcher SLACK = send_slack_alert"

definition process_alert_spec :: "world \<Rightarrow> Alert \<Rightarrow> NotificationManager \<Rightarrow> NotificationManager" where
  \<comment> \<open>the pipeline in the specification's words: append the alert to the log, then for each
      channel in \<^verbatim>\<open>alert.channels\<close> invoke its dispatcher\<close>
  "process_alert_spec w alert s =
     fold (\<lambda>c. dispatcher c w alert) (channels alert)
       (s\<lparr>alerts_queue := alerts_queue s @ [alert]\<rparr>)"

section \<open>Frame lemmas\<close>

lemmas prim_defs = now_def random_def choice_def randint_def step_def emit_def print_def
  statement_def

lemma stop_monitoring_frame [simp]:
  "alerts_queue (snd (stop_monitoring i s)) = alerts_queue s"
  "active_monitors (snd (stop_monitoring i s)) = active_monitors s"
  "cfg (snd (stop_monitoring i s)) = cfg s"
  "next_ref (snd (stop_monitoring i s)) = next_ref s"
  "tick (snd (stop_monitoring i s)) = tick s"
  "trace (snd (stop_monitoring i s)) = trace s"
  by (simp_all add: stop_monitoring_def update_monitor_def split: option.split)

lemma stops_frame:
  "alerts_queue (foldl (\<lambda>s' i. snd (stop_monitoring i s')) s ids) = alerts_queue s"
  "active_monitors (foldl (\<lambda>s' i. snd (stop_monitoring i s')) s ids) = active_monitors s"
  "cfg (foldl (\<lambda>s' i. snd (stop_monitoring i s')) s ids) = cfg s"
  "next_ref (foldl (\<lambda>s' i. snd (stop_monitoring i s')) s ids) = next_ref s"
  "tick (foldl (\<lambda>s' i. snd (stop_monitoring i s')) s ids) = tick s"
  "trace (foldl (\<lambda>s' i. snd (stop_monitoring i s')) s ids) = trace s"
  by (induction ids arbitrary: s; simp)+

lemma suspend_frame [simp]:
  "alerts_queue (suspend w s) = alerts_queue s"
  "active_monitors (suspend w s) = active_monitors s"
  "cfg (suspend w s) = cfg s"
  "next_ref (suspend w s) = next_ref s"
  "tick (suspend w s) = Suc (tick s)"
  "trace (suspend w s) = trace s"
  by (simp_all add: suspend_def step_def stops_frame)

lemma suspend_quiet [simp]: "quiet w \<Longrightarrow> heap (suspend w s) = heap s"
  by (simp add: suspend_def quiet_def step_def)

lemma sleep_frame [simp]:
  "alerts_queue (sleep w n s) = alerts_queue s"
  "active_monitors (sleep w n s) = active_monitors s"
  "cfg (sleep w n s) = cfg s"
  "next_ref (sleep w n s) = next_ref s"
  "tick (sleep w n s) = Suc (tick s)"
  "trace (sleep w n s) = trace s @ [Sleep n]"
  by (simp_all add: sleep_def emit_def)

lemma sleep_quiet [simp]: "quiet w \<Longrightarrow> heap (sleep w n s) = heap s"
  by (simp add: sleep_def emit_def)

lemma kept_refl [simp]: "kept s s"
  by (simp add: kept_def)

lemma kept_trans: "kept s s' \<Longrightarrow> kept s' s'' \<Longrightarrow> kept s s''"
  by (simp add: kept_def)

lemma kept_step [simp]: "kept s (step s)" "kept s (emit ev s)" "kept s (print text s)"
  "kept s (suspend w s)" "kept s (sleep w n s)"
  by (simp_all add: kept_def prim_defs)

lemma heap_step [simp]: "heap (step s) = heap s" "heap (emit ev s) = heap s"
  "heap (print text s) = heap s"
  by (simp_all add: prim_defs)

lemma courtlistener_alert_kept:
  "kept s (snd (courtlistener_alert w n opinion s))"
  by (simp add: courtlistener_alert_def now_def kept_def step_def split: sum.split)

lemma courtlistener_alert_heap:
  "heap (snd (courtlistener_alert w n opinion s)) = heap s"
  by (simp add: courtlistener_alert_def now_def step_def split: sum.split)

lemma scan_opinions_kept:
  "kept s (snd (scan_opinions w n tr ops alerts s))"
proof (induction ops arbitrary: alerts s)
  case Nil
  show ?case by simp
next
  case (Cons opinion rest)
  have step: "kept s (snd (courtlistener_alert w n opinion s))"
    by (rule courtlistener_alert_kept)
  show ?case
    using Cons.IH step
    by (auto simp del: any_trigger.simps split: sum.split prod.split intro: kept_trans)
qed

lemma scan_opinions_heap:
  "heap (snd (scan_opinions w n tr ops alerts s)) = heap s"
proof (induction ops arbitrary: alerts s)
  case Nil
  show ?case by simp
next
  case (Cons opinion rest)
  have step: "heap (snd (courtlistener_alert w n opinion s)) = heap s"
    by (rule courtlistener_alert_heap)
  show ?case
    using Cons.IH step
    by (auto simp del: any_trigger.simps split: sum.split prod.split)
qed

lemma courtlistener_try_kept: "kept s (snd (courtlistener_try w n tr s))"
proof -
  have a: "\<And>ops s'. kept s s' \<Longrightarrow> kept s (snd (scan_opinions w n tr ops [] s'))"
    using scan_opinions_kept kept_trans by blast
  have b: "kept s (suspend w (emit ev (step s)))" for ev
    by (simp add: kept_def prim_defs)
  show ?thesis
    unfolding courtlistener_try_def
    by (auto simp: now_def Let_def a b split: option.split sum.split http_result.split)
qed

lemma courtlistener_try_heap:
  "quiet w \<Longrightarrow> heap (snd (courtlistener_try w n tr s)) = heap s"
  unfolding courtlistener_try_def
  by (auto simp: now_def Let_def scan_opinions_heap
      split: option.split sum.split http_result.split)

lemma check_courtlistener_kept: "kept s (snd (check_courtlistener w n tr s))"
  using courtlistener_try_kept [of s w n tr]
  by (auto simp: check_courtlistener_def kept_def prim_defs split: prod.split option.split)

lemma check_courtlistener_heap:
  "quiet w \<Longrightarrow> heap (snd (check_courtlistener w n tr s)) = heap s"
  using courtlistener_try_heap [of w n tr s]
  by (auto simp: check_courtlistener_def split: prod.split option.split)

lemma check_vinelink_kept: "kept s (snd (check_vinelink w n i s))"
  by (simp add: check_vinelink_def kept_def prim_defs)

lemma check_vinelink_heap: "heap (snd (check_vinelink w n i s)) = heap s"
  by (simp add: check_vinelink_def prim_defs)

lemma check_pacer_kept: "kept s (snd (check_pacer w n tr s))"
  by (simp add: check_pacer_def kept_def prim_defs)

lemma check_pacer_heap: "heap (snd (check_pacer w n tr s)) = heap s"
  by (simp add: check_pacer_def prim_defs)

lemma check_state_courts_kept: "kept s (snd (check_state_courts w n tr s))"
  by (simp add: check_state_courts_def kept_def prim_defs)

lemma check_state_courts_heap: "heap (snd (check_state_courts w n tr s)) = heap s"
  by (simp add: check_state_courts_def prim_defs)

lemma send_email_alert_frame [simp]:
  "alerts_queue (send_email_alert w a s) = alerts_queue s"
  "active_monitors (send_email_alert w a s) = active_monitors s"
  "cfg (send_email_alert w a s) = cfg s"
  "next_ref (send_email_alert w a s) = next_ref s"
  "heap (send_email_alert w a s) = heap s"
  by (simp_all add: send_email_alert_def prim_defs split: option.split)

lemma send_webhook_alert_frame [simp]:
  "alerts_queue (send_webhook_alert w a s) = alerts_queue s"
  "active_monitors (send_webhook_alert w a s) = active_monitors s"
  "cfg (send_webhook_alert w a s) = cfg s"
  "next_ref (send_webhook_alert w a s) = next_ref s"
  by (simp_all add: send_webhook_alert_def Let_def prim_defs split: sum.split)

lemma send_webhook_alert_heap [simp]:
  "quiet w \<Longrightarrow> heap (send_webhook_alert w a s) = heap s"
  by (simp add: send_webhook_alert_def Let_def prim_defs split: sum.split)

lemma send_sms_alert_frame [simp]:
  "alerts_queue (send_sms_alert w a s) = alerts_queue s"
  "active_monitors (send_sms_alert w a s) = active_monitors s"
  "cfg (send_sms_alert w a s) = cfg s"
  "next_ref (send_sms_alert w a s) = next_ref s"
  "heap (send_sms_alert w a s) = heap s"
  by (simp_all add: send_sms_alert_def prim_defs)

lemma send_slack_alert_frame [simp]:
  "alerts_queue (send_slack_alert w a s) = alerts_queue s"
  "active_monitors (send_slack_alert w a s) = active_monitors s"
  "cfg (send_slack_alert w a s) = cfg s"
  "next_ref (send_slack_alert w a s) = next_ref s"
  "heap (send_slack_alert w a s) = heap s"
  by (simp_all add: send_slack_alert_def prim_defs)

lemma dispatch_channels_frame [simp]:
  "alerts_queue (dispatch_channels w a cs s) = alerts_queue s"
  "active_monitors (dispatch_channels w a cs s) = active_monitors s"
  "cfg (dispatch_channels w a cs s) = cfg s"
  "next_ref (dispatch_channels w a cs s) = next_ref s"
  by (induction cs arbitrary: s; simp)+

lemma dispatch_channels_heap [simp]:
  "quiet w \<Longrightarrow> heap (dispatch_channels w a cs s) = heap s"
  by (induction cs arbitrary: s) simp_all

lemma process_alert_frame [simp]:
  "alerts_queue (process_alert w a cs s) = alerts_queue s @ [a]"
  "active_monitors (process_alert w a cs s) = active_monitors s"
  "cfg (process_alert w a cs s) = cfg s"
  "next_ref (process_alert w a cs s) = next_ref s"
  by (simp_all add: process_alert_def)

lemma process_alert_heap [simp]:
  "quiet w \<Longrightarrow> heap (process_alert w a cs s) = heap s"
  by (simp add: process_alert_def)

lemma process_all_heap:
  "quiet w \<Longrightarrow> heap (snd (process_all w as cs s)) = heap s"
  by (induction as arbitrary: s) (simp_all add: statement_def step_def split: option.split)

lemma statement_heapD: "statement w s = (res, s') \<Longrightarrow> heap s' = heap s"
  by (auto simp: statement_def step_def)

lemma check_courtlistener_heapD:
  "quiet w \<Longrightarrow> check_courtlistener w n tr s = (res, s') \<Longrightarrow> heap s' = heap s"
  using check_courtlistener_heap [of w n tr s] by simp

lemma check_vinelink_heapD: "check_vinelink w n i s = (res, s') \<Longrightarrow> heap s' = heap s"
  using check_vinelink_heap [of w n i s] by simp

lemma check_pacer_heapD: "check_pacer w n tr s = (res, s') \<Longrightarrow> heap s' = heap s"
  using check_pacer_heap [of w n tr s] by simp

lemma check_state_courts_heapD:
  "check_state_courts w n tr s = (res, s') \<Longrightarrow> heap s' = heap s"
  using check_state_courts_heap [of w n tr s] by simp

lemma process_all_heapD:
  "quiet w \<Longrightarrow> process_all w as cs s = (res, s') \<Longrightarrow> heap s' = heap s"
  using process_all_heap [of w as cs s] by simp

lemma now_heapD: "now w s = (t, s') \<Longrightarrow> heap s' = heap s"
  by (auto simp: now_def step_def)

lemma update_last_check_active:
  "map_option m_active (heap (update_monitor r (\<lambda>m. m\<lparr>m_last_check := v\<rparr>) s) r')
   = map_option m_active (heap s r')"
  by (simp add: update_monitor_def option.map_comp comp_def)

lemma check_cycle_active:
  assumes q: "quiet w"
  shows "map_option m_active (heap (snd (check_cycle w r m s)) r')
         = map_option m_active (heap s r')"
proof -
  have upd: "\<And>s1 t. heap s1 = heap s \<Longrightarrow>
      map_option m_active (heap (update_monitor r (\<lambda>m. m\<lparr>m_last_check := Some t\<rparr>) s1) r')
      = map_option m_active (heap s r')"
    by (simp add: update_monitor_def option.map_comp comp_def)
  show ?thesis
    unfolding check_cycle_def
    by (auto split: prod.split sum.split option.split
        dest!: statement_heapD check_courtlistener_heapD [OF q] check_vinelink_heapD
          check_pacer_heapD check_state_courts_heapD process_all_heapD [OF q] now_heapD
        simp: q upd)
qed

lemma handle_error_heap: "quiet w \<Longrightarrow> heap (handle_error w i m e s) = heap s"
  by (simp add: handle_error_def now_def step_def)

lemma loop_iteration_active:
  assumes q: "quiet w"
  shows "map_option m_active (heap (loop_iteration w i r m s) r')
     = map_option m_active (heap s r')"
proof (cases "check_cycle w r m s")
  case (Pair res s1)
  have "map_option m_active (heap s1 r') = map_option m_active (heap s r')"
    using check_cycle_active [OF q, of r m s r'] Pair by simp
  then show ?thesis
    using Pair by (simp add: loop_iteration_def handle_error_heap [OF q] split: option.split)
qed

lemma monitoring_loop_needs_stop:
  assumes ret: "monitoring_loop w i r s = Some y" and q: "quiet w"
  shows "map_option m_active (heap s r) \<noteq> Some True"
proof -
  let ?P = "\<lambda>w (i::string) r s (y::NotificationManager).
    quiet w \<longrightarrow> map_option m_active (heap s r) \<noteq> Some True"
  have step: "?P w i r s y"
    if IH: "\<And>w i r s y. loop w i r s = Some y \<Longrightarrow> ?P w i r s y"
    and eq: "(case heap s r of None \<Rightarrow> Some s
         | Some monitor \<Rightarrow>
             if m_active monitor then loop w i r (loop_iteration w i r monitor s)
             else Some s) = Some y"
    for loop w i r s y
  proof (cases "heap s r")
    case None
    then show ?thesis by simp
  next
    case (Some m)
    show ?thesis
    proof (cases "m_active m")
      case False
      then show ?thesis using Some by simp
    next
      case True
      then have "loop w i r (loop_iteration w i r m s) = Some y"
        using eq Some by simp
      then have "?P w i r (loop_iteration w i r m s) y"
        by (rule IH)
      then show ?thesis
        using loop_iteration_active [of w i r m s r] by auto
    qed
  qed
  have "?P w i r s y"
    by (rule monitoring_loop.raw_induct [where P = ?P, OF step ret])
  then show ?thesis using q by simp
qed

lemma monitoring_loop_returns_inactive:
  assumes ret: "monitoring_loop w i r s = Some y"
  shows "map_option m_active (heap y r) \<noteq> Some True"
proof -
  let ?P = "\<lambda>(w::world) (i::string) r (s::NotificationManager) y.
    map_option m_active (heap y r) \<noteq> Some True"
  have step: "?P w i r s y"
    if IH: "\<And>w i r s y. loop w i r s = Some y \<Longrightarrow> ?P w i r s y"
    and eq: "(case heap s r of None \<Rightarrow> Some s
         | Some monitor \<Rightarrow>
             if m_active monitor then loop w i r (loop_iteration w i r monitor s)
             else Some s) = Some y"
    for loop w i r s y
  proof (cases "heap s r")
    case None
    then show ?thesis using eq by auto
  next
    case (Some m)
    show ?thesis
    proof (cases "m_active m")
      case False
      then show ?thesis using Some eq by auto
    next
      case True
      then have "loop w i r (loop_iteration w i r m s) = Some y"
        using eq Some by simp
      then show ?thesis by (rule IH)
    qed
  qed
  show ?thesis
    by (rule monitoring_loop.raw_induct [where P = ?P, OF step ret])
qed

lemma register_monitor_id:
  "fst (register_monitor w n i tr cs s) = make_monitor_id n (clock w (tick s))"
  by (simp add: register_monitor_def now_def Let_def)

lemma register_monitor_registry:
  "active_monitors (snd (register_monitor w n i tr cs s))
     = (active_monitors s)(make_monitor_id n (clock w (tick s)) \<mapsto> next_ref s)"
  by (simp add: register_monitor_def now_def step_def Let_def)

lemma register_monitor_heap:
  "heap (snd (register_monitor w n i tr cs s))
     = (heap s)(next_ref s \<mapsto>
         \<lparr>m_id = make_monitor_id n (clock w (tick s)), m_person_name = n, m_person_id = i,
          m_alert_triggers = tr, m_channels = cs, m_active = True, m_last_check = None,
          m_check_interval = 3600,
          m_sources = [''courtlistener'', ''pacer'', ''vinelink'', ''state_courts'']\<rparr>)"
  by (simp add: register_monitor_def now_def step_def Let_def)

lemma setup_unfold:
  "setup_person_monitoring w n i tr cs s =
     map_option (Pair (make_monitor_id n (clock w (tick s))))
       (monitoring_loop w (make_monitor_id n (clock w (tick s))) (next_ref s)
          (snd (register_monitor w n i tr cs s)))"
  by (simp add: setup_person_monitoring_def start_monitoring_loop_def split_beta
      register_monitor_id register_monitor_registry)

section \<open>The claims\<close>

subsection \<open>C1: the registration call and the loop it awaits\<close>

text \<open>
  C1 says that a call of \<^verbatim>\<open>setup_person_monitoring\<close> with a non-empty name
  terminates and returns the monitor id, the first check cycle being scheduled without
  blocking the return. The code awaits \<^verbatim>\<open>_start_monitoring_loop\<close> before its
  \<^verbatim>\<open>return monitor_id\<close>, and the loop runs while the monitor is active: in every
  world where no other task stops a monitor, the call never returns, whatever its
  arguments and the state it starts from.
\<close>

theorem setup_person_monitoring_blocks:
  assumes "quiet w"
  shows "setup_person_monitoring w n i tr cs s = None"
proof -
  let ?mid = "make_monitor_id n (clock w (tick s))"
  let ?s1 = "snd (register_monitor w n i tr cs s)"
  have "monitoring_loop w ?mid (next_ref s) ?s1 = None"
  proof (rule ccontr)
    assume "monitoring_loop w ?mid (next_ref s) ?s1 \<noteq> None"
    then obtain y where "monitoring_loop w ?mid (next_ref s) ?s1 = Some y" by blast
    from monitoring_loop_needs_stop [OF this assms] show False
      by (simp add: register_monitor_heap)
  qed
  then show ?thesis by (simp add: setup_unfold)
qed

theorem setup_person_monitoring_blocks_witness:
  "quiet quiet_world \<and>
   setup_person_monitoring quiet_world ''Jane Doe'' ''JD-1'' [''arrest''] [''email'']
     (init no_env) = None"
proof -
  have q: "quiet quiet_world"
    by (simp add: quiet_def quiet_world_def)
  show ?thesis
    using q setup_person_monitoring_blocks [OF q] by simp
qed

subsection \<open>C8: stopping a monitor\<close>

lemma jane_id: "make_monitor_id ''Jane Doe'' new_year_2024 = ''monitor_Jane_Doe_20240101_000000''"
  by code_simp

lemma jane_registry:
  "active_monitors jane_registered ''monitor_Jane_Doe_20240101_000000'' = Some 0"
  unfolding jane_registered_def register_monitor_registry
  by (simp add: quiet_world_def init_def jane_id)

text \<open>
  C8: \<^verbatim>\<open>stop_monitoring\<close> returns false for an id that is not in the registry and
  leaves the manager as it is; for a known id it returns true and clears the
  \<^verbatim>\<open>active\<close> flag of that monitor's dict, changing nothing else: the registry keeps
  the id, no dict appears or disappears, and every other dict is untouched.
\<close>

theorem stop_monitoring_flag:
  "(active_monitors s i = None \<longrightarrow> stop_monitoring i s = (False, s)) \<and>
   (\<forall>r. active_monitors s i = Some r \<longrightarrow>
      fst (stop_monitoring i s) = True \<and>
      active_monitors (snd (stop_monitoring i s)) = active_monitors s \<and>
      alerts_queue (snd (stop_monitoring i s)) = alerts_queue s \<and>
      dom (heap (snd (stop_monitoring i s))) = dom (heap s) \<and>
      heap (snd (stop_monitoring i s)) r = map_option (\<lambda>m. m\<lparr>m_active := False\<rparr>) (heap s r) \<and>
      (\<forall>r'. r' \<noteq> r \<longrightarrow> heap (snd (stop_monitoring i s)) r' = heap s r'))"
proof (intro conjI allI impI)
  assume "active_monitors s i = None"
  then show "stop_monitoring i s = (False, s)"
    by (simp add: stop_monitoring_def)
next
  fix r
  assume known: "active_monitors s i = Some r"
  then have unfold: "stop_monitoring i s = (True, update_monitor r (\<lambda>m. m\<lparr>m_active := False\<rparr>) s)"
    by (simp add: stop_monitoring_def)
  show "fst (stop_monitoring i s) = True"
    by (simp add: unfold)
  show "active_monitors (snd (stop_monitoring i s)) = active_monitors s"
    by (simp add: unfold update_monitor_def)
  show "alerts_queue (snd (stop_monitoring i s)) = alerts_queue s"
    by (simp add: unfold update_monitor_def)
  show "dom (heap (snd (stop_monitoring i s))) = dom (heap s)"
    by (auto simp: unfold update_monitor_def dom_def)
  show "heap (snd (stop_monitoring i s)) r = map_option (\<lambda>m. m\<lparr>m_active := False\<rparr>) (heap s r)"
    by (simp add: unfold update_monitor_def)
  show "heap (snd (stop_monitoring i s)) r' = heap s r'" if "r' \<noteq> r" for r'
    using that by (simp add: unfold update_monitor_def)
qed

theorem stop_monitoring_flag_witness:
  "stop_monitoring ''monitor_Nobody_20240101_000000'' jane_registered = (False, jane_registered) \<and>
   fst (stop_monitoring ''monitor_Jane_Doe_20240101_000000'' jane_registered) = True \<and>
   map_option m_active
     (lookup_monitor (snd (stop_monitoring ''monitor_Jane_Doe_20240101_000000'' jane_registered))
        ''monitor_Jane_Doe_20240101_000000'') = Some False"
proof -
  have unknown: "active_monitors jane_registered ''monitor_Nobody_20240101_000000'' = None"
    unfolding jane_registered_def register_monitor_registry
    by (simp add: quiet_world_def init_def jane_id)
  have cell: "heap jane_registered 0 \<noteq> None"
    unfolding jane_registered_def register_monitor_heap
    by (simp add: init_def)
  note spec = stop_monitoring_flag [of jane_registered]
  show ?thesis
    using spec [of "''monitor_Nobody_20240101_000000''"]
      spec [of "''monitor_Jane_Doe_20240101_000000''"] unknown jane_registry cell
    by (auto simp: lookup_monitor_def)
qed

subsection \<open>C7: the recent alerts\<close>

text \<open>
  C7: for every \<^verbatim>\<open>hours\<close> and every alert log, what \<^verbatim>\<open>get_recent_alerts\<close>
  returns are the alerts of the log created strictly after the call time minus that many
  hours, and no alert created at or before that cutoff. The call returns whenever the
  call time and the cutoff are datetimes; for an \<^verbatim>\<open>hours\<close> that takes the cutoff out
  of the calendar it raises \<^verbatim>\<open>OverflowError\<close> and returns nothing.
\<close>

theorem get_recent_alerts_window:
  "(\<forall>recent s'. get_recent_alerts w hours s = (Inr recent, s') \<longrightarrow>
      recent = filter (\<lambda>a. clock w (tick s) - hours * US_PER_HOUR < created_at a) (alerts_queue s) \<and>
      (\<forall>a \<in> set recent. a \<in> set (alerts_queue s) \<and>
         clock w (tick s) - hours * US_PER_HOUR < created_at a) \<and>
      (\<forall>a \<in> set (alerts_queue s). created_at a \<le> clock w (tick s) - hours * US_PER_HOUR
         \<longrightarrow> a \<notin> set recent)) \<and>
   (valid_datetime (clock w (tick s)) \<and> valid_datetime (clock w (tick s) - hours * US_PER_HOUR)
      \<longrightarrow> (\<exists>recent. fst (get_recent_alerts w hours s) = Inr recent))"
proof (intro conjI allI impI)
  fix recent s'
  assume ret: "get_recent_alerts w hours s = (Inr recent, s')"
  then have delta: "timedelta_hours hours = Inr (hours * US_PER_HOUR)"
    by (auto simp: get_recent_alerts_def now_def timedelta_hours_def split: sum.splits if_splits)
  from ret have cutoff:
    "datetime_sub (clock w (tick s)) (hours * US_PER_HOUR)
       = Inr (clock w (tick s) - hours * US_PER_HOUR)"
    by (auto simp: get_recent_alerts_def now_def delta datetime_sub_def split: sum.splits if_splits)
  from ret show eq: "recent =
      filter (\<lambda>a. clock w (tick s) - hours * US_PER_HOUR < created_at a) (alerts_queue s)"
    by (simp add: get_recent_alerts_def now_def step_def delta cutoff)
  show "\<forall>a \<in> set recent. a \<in> set (alerts_queue s) \<and>
      clock w (tick s) - hours * US_PER_HOUR < created_at a"
    by (simp add: eq)
  show "\<forall>a \<in> set (alerts_queue s). created_at a \<le> clock w (tick s) - hours * US_PER_HOUR
      \<longrightarrow> a \<notin> set recent"
    by (simp add: eq)
next
  assume valid: "valid_datetime (clock w (tick s)) \<and>
    valid_datetime (clock w (tick s) - hours * US_PER_HOUR)"
  then have "- MAX_DATETIME \<le> hours * US_PER_HOUR" "hours * US_PER_HOUR \<le> MAX_DATETIME"
    by (auto simp: valid_datetime_def)
  then have "- MAX_DELTA_DAYS \<le> hours div 24 \<and> hours div 24 \<le> MAX_DELTA_DAYS"
    by (simp add: MAX_DATETIME_def MAX_ORDINAL_def US_PER_DAY_def US_PER_HOUR_def
        MAX_DELTA_DAYS_def) arith
  then have "timedelta_hours hours = Inr (hours * US_PER_HOUR)"
    by (simp add: timedelta_hours_def)
  then show "\<exists>recent. fst (get_recent_alerts w hours s) = Inr recent"
    using valid by (simp add: get_recent_alerts_def now_def datetime_sub_def)
qed

lemma get_recent_alerts_sample:
  "fst (get_recent_alerts later_world 1 two_alerts) = Inr [sample_alert]"
  by (simp add: get_recent_alerts_def now_def step_def later_world_def quiet_world_def
      two_alerts_def init_def timedelta_hours_def datetime_sub_def valid_datetime_def
      MAX_DATETIME_def MAX_ORDINAL_def MAX_DELTA_DAYS_def US_PER_DAY_def US_PER_HOUR_def
      US_PER_SECOND_def new_year_2024_def old_alert_def sample_alert_def)

theorem get_recent_alerts_window_witness:
  "fst (get_recent_alerts later_world 1 two_alerts) = Inr [sample_alert] \<and>
   sample_alert \<in> set (alerts_queue two_alerts) \<and>
   clock later_world (tick two_alerts) - 1 * US_PER_HOUR < created_at sample_alert \<and>
   old_alert \<notin> set [sample_alert]"
proof -
  obtain s' where ret: "get_recent_alerts later_world 1 two_alerts = (Inr [sample_alert], s')"
    using get_recent_alerts_sample by (cases "get_recent_alerts later_world 1 two_alerts") simp
  have old: "old_alert \<in> set (alerts_queue two_alerts)"
    by (simp add: two_alerts_def)
  have old_time: "created_at old_alert \<le> clock later_world (tick two_alerts) - 1 * US_PER_HOUR"
    by (simp add: old_alert_def later_world_def quiet_world_def new_year_2024_def
        US_PER_HOUR_def US_PER_DAY_def US_PER_SECOND_def)
  from get_recent_alerts_window [of later_world 1 two_alerts] ret
  have window: "\<forall>a \<in> set [sample_alert]. a \<in> set (alerts_queue two_alerts) \<and>
      clock later_world (tick two_alerts) - 1 * US_PER_HOUR < created_at a"
    and older: "\<forall>a \<in> set (alerts_queue two_alerts).
      created_at a \<le> clock later_world (tick two_alerts) - 1 * US_PER_HOUR
        \<longrightarrow> a \<notin> set [sample_alert]"
    by blast+
  from older old old_time have "old_alert \<notin> set [sample_alert]" by blast
  with window get_recent_alerts_sample show ?thesis by simp
qed

subsection \<open>C2: the checkers absorb their failures\<close>

text \<open>The \<^verbatim>\<open>try\<close> block of the federal case search does raise, for instance when the
  source cannot be reached; the checker prints the error and returns no alert.\<close>

lemma courtlistener_try_raises:
  "fst (courtlistener_try down_world ''Jane Doe'' [''arrest''] (init token_env))
     = (Some (TransportError ''connection refused''), [])"
  by (simp add: courtlistener_try_def init_def token_env_def now_def step_def down_world_def
      quiet_world_def timedelta_days_def datetime_sub_def valid_datetime_def Let_def
      MAX_DATETIME_def MAX_ORDINAL_def MAX_DELTA_DAYS_def US_PER_DAY_def new_year_2024_def)

lemma check_courtlistener_absorbs:
  "fst (check_courtlistener down_world ''Jane Doe'' [''arrest''] (init token_env)) = Inr []"
proof (cases "courtlistener_try down_world ''Jane Doe'' [''arrest''] (init token_env)")
  case (Pair outcome s')
  then have "outcome = (Some (TransportError ''connection refused''), [])"
    using courtlistener_try_raises by simp
  then show ?thesis
    using Pair by (simp add: check_courtlistener_def)
qed

text \<open>
  C2: none of the four source checkers hands an error to its caller. The federal case
  search wraps all it does in \<^verbatim>\<open>try\<close>/\<^verbatim>\<open>except Exception\<close> and returns the alerts
  gathered so far; the custody-status lookup, the federal docket search and the state
  court search perform no operation that can raise on their string arguments.
\<close>

theorem checkers_never_raise:
  "(\<exists>alerts. fst (check_courtlistener w person_name alert_triggers s) = Inr alerts) \<and>
   (\<exists>alerts. fst (check_vinelink w person_name person_id s) = Inr alerts) \<and>
   (\<exists>alerts. fst (check_pacer w person_name alert_triggers s) = Inr alerts) \<and>
   (\<exists>alerts. fst (check_state_courts w person_name alert_triggers s) = Inr alerts)"
proof (intro conjI)
  show "\<exists>alerts. fst (check_courtlistener w person_name alert_triggers s) = Inr alerts"
  proof (cases "courtlistener_try w person_name alert_triggers s")
    case (Pair outcome s')
    obtain raised alerts where "outcome = (raised, alerts)"
      by (cases outcome)
    then show ?thesis
      using Pair by (cases raised) (simp_all add: check_courtlistener_def)
  qed
  show "\<exists>alerts. fst (check_vinelink w person_name person_id s) = Inr alerts"
    by (simp add: check_vinelink_def split: prod.split)
  show "\<exists>alerts. fst (check_pacer w person_name alert_triggers s) = Inr alerts"
    by (simp add: check_pacer_def split: prod.split)
  show "\<exists>alerts. fst (check_state_courts w person_name alert_triggers s) = Inr alerts"
    by (simp add: check_state_courts_def split: prod.split)
qed

subsection \<open>C5: the alert pipeline\<close>

lemma dispatch_channels_fold:
  "dispatch_channels w alert channel_names s =
     fold (\<lambda>c. dispatcher c w alert) (List.map_filter channel_named channel_names) s"
proof (induction channel_names arbitrary: s)
  case Nil
  show ?case by (simp add: List.map_filter_simps)
next
  case (Cons channel_name rest)
  show ?case
    by (simp add: Cons.IH List.map_filter_simps channel_named_def)
qed

text \<open>
  C5 says that the pipeline appends the alert to the log and then invokes exactly the
  dispatchers of the channels in the alert's own \<^verbatim>\<open>channels\<close> field. The code never
  reads that field: \<^verbatim>\<open>_process_alert(alert, channels)\<close> walks its second argument, the
  list of channel names the caller passes (the monitor's \<^verbatim>\<open>channels\<close> in the loop). What
  holds: the alert is appended to the log first, and then the dispatchers selected by the
  names of that argument run, in its order, once per occurrence, unknown names selecting
  nothing; the log is the old one followed by the alert.
\<close>

theorem process_alert_dispatch:
  "process_alert w alert channel_names s =
     fold (\<lambda>c. dispatcher c w alert) (List.map_filter channel_named channel_names)
       (s\<lparr>alerts_queue := alerts_queue s @ [alert]\<rparr>) \<and>
   alerts_queue (process_alert w alert channel_names s) = alerts_queue s @ [alert]"
proof
  show "process_alert w alert channel_names s =
     fold (\<lambda>c. dispatcher c w alert) (List.map_filter channel_named channel_names)
       (s\<lparr>alerts_queue := alerts_queue s @ [alert]\<rparr>)"
    unfolding process_alert_def by (rule dispatch_channels_fold)
  show "alerts_queue (process_alert w alert channel_names s) = alerts_queue s @ [alert]"
    by simp
qed

text \<open>
  An alert whose own channels are email and SMS, processed for a monitor whose channels
  are \<^verbatim>\<open>["webhook"]\<close>: the code posts to the webhook and neither prints the email
  notice nor the SMS line, which the pipeline of the specification would do.
\<close>

theorem process_alert_dispatch_counterexample:
  "trace (process_alert quiet_world sample_alert [''webhook''] (init hook_env))
     = [HttpPost ''https://hooks.example/tavit'' (webhook_payload sample_alert) 30] \<and>
   trace (process_alert_spec quiet_world sample_alert (init hook_env))
     = [Print (''Email not configured, would send: '' @ title sample_alert),
        Print (''SMS Alert (simulated): '' @ title sample_alert @ '' - '' @ message sample_alert)] \<and>
   channels sample_alert = [EMAIL, SMS] \<and>
   trace (process_alert quiet_world sample_alert [''webhook''] (init hook_env))
     \<noteq> trace (process_alert_spec quiet_world sample_alert (init hook_env))"
  by (simp add: process_alert_def process_alert_spec_def send_webhook_alert_def
      send_email_alert_def send_sms_alert_def Let_def prim_defs init_def hook_env_def
      getenv_default_def quiet_world_def sample_alert_def no_env_def)

end
